theory Spec2Isabelle
  imports Complex_Main
begin

section \<open>Input validation for forecasting (sktime/utils/validation/forecasting.py)\<close>

text \<open>
  A shallow embedding of the validators of \<^verbatim>\<open>forecasting.py\<close>. Every \<^verbatim>\<open>raise\<close> of the
  source, and every exception that Python, numpy or pandas raises on the way, is a value
  \<open>Inl e\<close> of a sum type; a normal return is \<open>Inr v\<close>.
\<close>

subsection \<open>Exceptions\<close>

text \<open>
  The constructor is the Python exception class. The string is the static text of the
  source's message, shortened, without the interpolated values; the one exception is the
  message of \<^verbatim>\<open>check_X\<close>, which ends with the name of the offending column.
\<close>

datatype error =
    ValueError string
  | TypeError string
  | NotImplementedError string
  | IndexError string
  | OverflowError string

subsection \<open>Python values\<close>

text \<open>
  A Python float is a finite double, an infinity or NaN. The validators only ever compare
  floats (with \<^verbatim>\<open><\<close> and \<^verbatim>\<open>==\<close>), and comparison of doubles is exact, so a finite
  float is represented by the real number it denotes.
\<close>

datatype pyfloat = Finite real | PosInf | NegInf | NaN

text \<open>\<^verbatim>\<open>i < f\<close> and \<^verbatim>\<open>f < i\<close> for a Python int \<open>i\<close> and a float \<open>f\<close>; any comparison with NaN is False.\<close>

fun int_lt_float :: "int \<Rightarrow> pyfloat \<Rightarrow> bool" where
  "int_lt_float i (Finite r) = (of_int i < r)"
| "int_lt_float i PosInf = True"
| "int_lt_float i NegInf = False"
| "int_lt_float i NaN = False"

fun float_lt_int :: "pyfloat \<Rightarrow> int \<Rightarrow> bool" where
  "float_lt_int (Finite r) i = (r < of_int i)"
| "float_lt_int PosInf i = False"
| "float_lt_int NegInf i = True"
| "float_lt_int NaN i = False"

text \<open>\<^verbatim>\<open>a == b\<close> on floats: NaN is not equal to itself.\<close>

fun float_eq :: "pyfloat \<Rightarrow> pyfloat \<Rightarrow> bool" where
  "float_eq NaN b = False"
| "float_eq a NaN = False"
| "float_eq a b = (a = b)"

text \<open>
  The values a scalar validator may receive: \<^verbatim>\<open>None\<close>, a bool, an (unbounded) int, a float
  or a list of such values. numpy arrays are objects with identity and live in a store,
  see below.
\<close>

datatype pyval =
    PyNone
  | PyBool bool
  | PyInt int
  | PyFloat pyfloat
  | PyList "pyval list"

text \<open>
  Modelled from the spec: \<^verbatim>\<open>is_int\<close> is imported from \<^verbatim>\<open>sktime.utils.validation\<close>, whose
  source is not part of the files at hand. The spec speaks of "an integer" throughout; a
  value is an integer when it is an int. A bool is not (it is a kind of its own here).
\<close>

fun is_int :: "pyval \<Rightarrow> bool" where
  "is_int (PyInt n) = True"
| "is_int v = False"

fun is_float :: "pyval \<Rightarrow> bool" where
  "is_float (PyFloat f) = True"
| "is_float v = False"

text \<open>
  \<^verbatim>\<open>x < 1\<close> for a value that passed \<^verbatim>\<open>is_int\<close>. The source evaluates
  \<^verbatim>\<open>not is_int(x) or x < 1\<close> left to right, so the comparison is only reached for an int.
\<close>

fun int_of :: "pyval \<Rightarrow> int" where
  "int_of (PyInt n) = n"
| "int_of (PyBool b) = (if b then 1 else 0)"
| "int_of v = 0"

subsection \<open>Scalar validators\<close>

definition check_window_length :: "pyval \<Rightarrow> error + pyval" where
  "check_window_length window_length =
     (if window_length \<noteq> PyNone then
        (if \<not> is_int window_length \<or> int_of window_length < 1
         then Inl (ValueError ''window_length_ must be a positive integer >= 1 or None'')
         else Inr window_length)
      else Inr window_length)"

definition check_step_length :: "pyval \<Rightarrow> error + pyval" where
  "check_step_length step_length =
     (if step_length \<noteq> PyNone then
        (if \<not> is_int step_length \<or> int_of step_length < 1
         then Inl (ValueError ''step_length must be a positive integer >= 1 or None'')
         else Inr step_length)
      else Inr step_length)"

definition check_sp :: "pyval \<Rightarrow> error + pyval" where
  "check_sp sp =
     (if sp \<noteq> PyNone then
        (if \<not> is_int sp \<or> int_of sp < 1
         then Inl (ValueError ''sp must be a positive integer >= 1 or None'')
         else Inr sp)
      else Inr sp)"

subsection \<open>Confidence levels\<close>

text \<open>
  \<^verbatim>\<open>0 < a < 1\<close> is \<^verbatim>\<open>0 < a and a < 1\<close>. On an int or a bool it is an integer
  comparison; \<^verbatim>\<open>None\<close> and a list do not compare with an int and raise TypeError.
\<close>

fun in_open_interval :: "pyval \<Rightarrow> error + bool" where
  "in_open_interval (PyFloat f) = Inr (int_lt_float 0 f \<and> float_lt_int f 1)"
| "in_open_interval (PyInt n) = Inr (0 < n \<and> n < 1)"
| "in_open_interval (PyBool b) = Inr False"
| "in_open_interval v = Inl (TypeError ''< not supported between these instances'')"

text \<open>The loop \<^verbatim>\<open>for a in alpha: if not 0 < a < 1: raise ...\<close>.\<close>

fun check_range :: "pyval list \<Rightarrow> error + unit" where
  "check_range [] = Inr ()"
| "check_range (a # as) =
     (case in_open_interval a of
        Inl e \<Rightarrow> Inl e
      | Inr ok \<Rightarrow>
          if \<not> ok then Inl (ValueError ''alpha must lie in the open interval (0, 1)'')
          else check_range as)"

text \<open>
  A list is checked to hold floats only; a float is wrapped into a list; any other value
  falls through both branches and reaches the loop, where iterating over \<^verbatim>\<open>None\<close>, a bool
  or an int raises TypeError.
\<close>

fun check_alpha :: "pyval \<Rightarrow> error + pyval" where
  "check_alpha (PyList as) =
     (if \<not> list_all is_float as
      then Inl (ValueError ''When alpha is passed as a list, it must be a list of floats'')
      else (case check_range as of Inl e \<Rightarrow> Inl e | Inr u \<Rightarrow> Inr (PyList as)))"
| "check_alpha (PyFloat a) =
     (case check_range [PyFloat a] of
        Inl e \<Rightarrow> Inl e
      | Inr u \<Rightarrow> Inr (PyList [PyFloat a]))"
| "check_alpha v = Inl (TypeError ''object is not iterable'')"

text \<open>What the spec calls "lies strictly between 0 and 1".\<close>

fun strictly_between_0_1 :: "pyfloat \<Rightarrow> bool" where
  "strictly_between_0_1 (Finite r) = (0 < r \<and> r < 1)"
| "strictly_between_0_1 f = False"

subsection \<open>numpy arrays and the store\<close>

text \<open>
  A numeric array has an element type (signed 64-bit integer, unsigned 64-bit integer or
  double), a shape and its elements in row-major order. The elements are read by the
  validators only when the element type is an integer type, and then they are integers;
  for a float array \<open>data\<close> is not consulted.
\<close>

datatype dtype = Int_dtype | UInt_dtype | Float_dtype

record ndarray =
  dtype :: dtype
  shape :: "nat list"
  data :: "int list"

definition ndim :: "ndarray \<Rightarrow> nat" where
  "ndim a = length (shape a)"

text \<open>\<^verbatim>\<open>np.issubdtype(d, np.integer)\<close>.\<close>

fun issubdtype_integer :: "dtype \<Rightarrow> bool" where
  "issubdtype_integer Int_dtype = True"
| "issubdtype_integer UInt_dtype = True"
| "issubdtype_integer d = False"

text \<open>\<^verbatim>\<open>len(a)\<close>: the size of the first axis; a 0-d array has no length.\<close>

definition np_len :: "ndarray \<Rightarrow> error + nat" where
  "np_len a = (case shape a of
                 [] \<Rightarrow> Inl (TypeError ''len() of unsized object'')
               | n # ns \<Rightarrow> Inr n)"

text \<open>
  \<^verbatim>\<open>np.array(xs, dtype=np.int)\<close> on a list of Python ints: a fresh 1-D array of 64-bit
  signed integers. A Python int outside that range raises OverflowError.
\<close>

definition fits_int64 :: "int \<Rightarrow> bool" where
  "fits_int64 x = (- (2 ^ 63) \<le> x \<and> x < 2 ^ 63)"

definition np_array_int :: "int list \<Rightarrow> error + ndarray" where
  "np_array_int xs =
     (if list_all fits_int64 xs
      then Inr \<lparr>dtype = Int_dtype, shape = [length xs], data = xs\<rparr>
      else Inl (OverflowError ''Python int too large to convert to C long''))"

text \<open>\<^verbatim>\<open>np.unique(a)\<close>: the sorted distinct elements of the flattened array.\<close>

definition np_unique :: "int list \<Rightarrow> int list" where
  "np_unique xs = sort (remdups xs)"

text \<open>
  \<^verbatim>\<open>check_fh\<close> sorts an array in place, and an array passed by the caller is the caller's
  object. So arrays live in a store: a list of arrays, an address is a position in it, and
  allocation appends.
\<close>

type_synonym addr = nat
type_synonym heap = "ndarray list"

definition alloc :: "heap \<Rightarrow> ndarray \<Rightarrow> addr \<times> heap" where
  "alloc h a = (length h, h @ [a])"

text \<open>What \<^verbatim>\<open>check_fh\<close> and \<^verbatim>\<open>check_cutoffs\<close> may receive: a value, or a reference to an array.\<close>

datatype pyobj = Val pyval | NDArray addr

subsection \<open>Forecasting horizon\<close>

text \<open>
  Lines 246 to 257 of the source, reached from each of the three accepting branches with
  \<^verbatim>\<open>fh\<close> bound to an array: the emptiness check, the duplicate check, \<^verbatim>\<open>fh.sort()\<close> (in
  place: the array at \<open>p\<close> is overwritten) and \<^verbatim>\<open>return fh\<close> (the same object).
\<close>

definition check_fh_tail :: "addr \<Rightarrow> heap \<Rightarrow> (error + addr) \<times> heap" where
  "check_fh_tail p h =
     (let fh = h ! p in
      case np_len fh of
        Inl e \<Rightarrow> (Inl e, h)
      | Inr n \<Rightarrow>
          if n < 1 then (Inl (ValueError ''fh cannot be empty''), h)
          else if n \<noteq> length (np_unique (data fh))
          then (Inl (ValueError ''fh should not contain duplicates''), h)
          else (Inr p, h[p := fh\<lparr>data := sort (data fh)\<rparr>]))"

fun check_fh :: "pyobj \<Rightarrow> heap \<Rightarrow> (error + addr) \<times> heap" where
  "check_fh (Val (PyInt n)) h =
     (case np_array_int [n] of
        Inl e \<Rightarrow> (Inl e, h)
      | Inr a \<Rightarrow> (case alloc h a of (p, h') \<Rightarrow> check_fh_tail p h'))"
| "check_fh (NDArray p) h =
     (let fh = h ! p in
      if ndim fh > 1 then (Inl (ValueError ''fh must be a 1d array''), h)
      else if \<not> issubdtype_integer (dtype fh)
      then (Inl (ValueError ''If fh is passed as an array, it must be an array of integers''), h)
      else check_fh_tail p h)"
| "check_fh (Val (PyList xs)) h =
     (if \<not> list_all is_int xs
      then (Inl (ValueError ''If fh is passed as a list, it has to be a list of integers''), h)
      else (case np_array_int (map int_of xs) of
              Inl e \<Rightarrow> (Inl e, h)
            | Inr a \<Rightarrow> (case alloc h a of (p, h') \<Rightarrow> check_fh_tail p h')))"
| "check_fh (Val v) h =
     (Inl (ValueError
        ''fh has to be either a numpy array or list of integers, or a single integer''), h)"

text \<open>The integers a caller passes as horizon, for stating what \<^verbatim>\<open>check_fh\<close> returns.\<close>

fun fh_input :: "pyobj \<Rightarrow> heap \<Rightarrow> int list" where
  "fh_input (Val (PyInt n)) h = [n]"
| "fh_input (Val (PyList xs)) h = map int_of xs"
| "fh_input (NDArray p) h = data (h ! p)"
| "fh_input (Val v) h = []"

text \<open>
  The references of an argument point into the store, and a 1-D array holds as many
  elements as its shape says.
\<close>

fun wf_arg :: "pyobj \<Rightarrow> heap \<Rightarrow> bool" where
  "wf_arg (NDArray p) h = (p < length h \<and> (ndim (h ! p) \<noteq> 1 \<or> shape (h ! p) = [length (data (h ! p))]))"
| "wf_arg (Val v) h = True"

text \<open>
  What the spec calls a canonical horizon: a nonempty 1-D integer array, sorted ascending
  and free of duplicates.
\<close>

definition canonical_fh :: "ndarray \<Rightarrow> bool" where
  "canonical_fh a =
     (issubdtype_integer (dtype a) \<and> shape a = [length (data a)] \<and> data a \<noteq> []
      \<and> sorted (data a) \<and> distinct (data a))"

text \<open>
  The inputs the spec (4.5) lets through the type normalization: a single integer, a 1-D
  integer array, a list of integers. A Python int has to fit the 64-bit element type of
  the array it is put into.
\<close>

fun accepted_fh :: "pyobj \<Rightarrow> heap \<Rightarrow> bool" where
  "accepted_fh (Val (PyInt n)) h = fits_int64 n"
| "accepted_fh (Val (PyList xs)) h =
     (list_all is_int xs \<and> list_all fits_int64 (map int_of xs))"
| "accepted_fh (NDArray p) h = (ndim (h ! p) = 1 \<and> issubdtype_integer (dtype (h ! p)))"
| "accepted_fh (Val v) h = False"

subsection \<open>Cutoffs\<close>

text \<open>
  \<^verbatim>\<open>[is_int(cutoff) for cutoff in cutoffs]\<close>: a 0-d array cannot be iterated; a 1-D array
  yields its elements, numpy scalars of the array's element type; an array of more
  dimensions yields arrays, which are not integers.
\<close>

definition cutoffs_is_int :: "ndarray \<Rightarrow> error + bool list" where
  "cutoffs_is_int a =
     (case shape a of
        [] \<Rightarrow> Inl (TypeError ''iteration over a 0-d array'')
      | [n] \<Rightarrow> Inr (replicate n (issubdtype_integer (dtype a)))
      | n # ns \<Rightarrow> Inr (replicate n False))"

text \<open>\<^verbatim>\<open>np.sort\<close> returns a sorted copy, so the result is a new array and the store is only read.\<close>

fun check_cutoffs :: "pyobj \<Rightarrow> heap \<Rightarrow> error + ndarray" where
  "check_cutoffs (Val v) h = Inl (ValueError ''cutoffs must be a np.array'')"
| "check_cutoffs (NDArray p) h =
     (let cutoffs = h ! p in
      case cutoffs_is_int cutoffs of
        Inl e \<Rightarrow> Inl e
      | Inr bs \<Rightarrow>
          if \<not> list_all id bs then Inl (ValueError ''All cutoff points must be integers'')
          else if \<not> ndim cutoffs = 1 then Inl (ValueError ''cutoffs must be 1-dimensional array'')
          else (case np_len cutoffs of
                  Inl e \<Rightarrow> Inl e
                | Inr n \<Rightarrow>
                    if \<not> n > 0 then Inl (ValueError ''Found empty cutoff array'')
                    else Inr (cutoffs\<lparr>data := sort (data cutoffs)\<rparr>)))"

subsection \<open>Comparing 64-bit integers of different signedness\<close>

text \<open>
  numpy has no integer type that holds both a signed and an unsigned 64-bit integer:
  comparing one with the other converts both to double first. \<open>to_float64 x\<close> is the
  double nearest to the integer \<open>x\<close> (ties to the even mantissa), itself an integer:
  below \<open>2 ^ 53\<close> in magnitude it is \<open>x\<close>, above the low bits are rounded away.
  \<open>excess_bits a\<close> is the number of bits of \<open>a\<close> beyond the 53 of the mantissa.
\<close>

function excess_bits :: "nat \<Rightarrow> nat" where
  "excess_bits a = (if a < 2 ^ 53 then 0 else Suc (excess_bits (a div 2)))"
  by pat_completeness auto
termination
  by (relation "measure id") auto

declare excess_bits.simps [simp del]

definition to_float64 :: "int \<Rightarrow> int" where
  "to_float64 x =
     (let a = nat \<bar>x\<bar>; e = excess_bits a in
      if e = 0 then x
      else (let q = a div 2 ^ e; r = a mod 2 ^ e; half = 2 ^ (e - 1);
                q' = (if r > half \<or> (r = half \<and> odd q) then q + 1 else q)
            in sgn x * int (q' * 2 ^ e)))"

subsection \<open>pandas indices\<close>

text \<open>
  An index has a kind (its pandas class) and its labels in order. A \<^verbatim>\<open>RangeIndex\<close> is
  given by the labels it generates. The labels of a calendar or period index are its
  ordinals, those of a float index the integers its doubles denote.
\<close>

datatype index_kind =
    RangeIndex | Int64Index | UInt64Index | Float64Index | DatetimeIndex | PeriodIndex

record pd_index =
  kind :: index_kind
  labels :: "int list"

text \<open>\<^verbatim>\<open>pd.RangeIndex(n)\<close>: the labels 0, ..., n - 1.\<close>

definition pd_RangeIndex :: "nat \<Rightarrow> pd_index" where
  "pd_RangeIndex n = \<lparr>kind = RangeIndex, labels = map int [0..<n]\<rparr>"

text \<open>
  The numeric type of the labels of an index, where it has one. The labels of a range are
  signed integers (Python ints that fit 64 bits).
\<close>

fun values_dtype :: "index_kind \<Rightarrow> dtype option" where
  "values_dtype RangeIndex = Some Int_dtype"
| "values_dtype Int64Index = Some Int_dtype"
| "values_dtype UInt64Index = Some UInt_dtype"
| "values_dtype Float64Index = Some Float_dtype"
| "values_dtype k = None"

text \<open>
  numpy's \<^verbatim>\<open>==\<close> and \<^verbatim>\<open>>=\<close> on a label of an index of kind \<open>k1\<close> and one of kind \<open>k2\<close>:
  exact when both have the same numeric type, through double when the numeric types
  differ. A calendar or period label equals only a label of its own kind.
\<close>

definition np_equal :: "index_kind \<Rightarrow> int \<Rightarrow> index_kind \<Rightarrow> int \<Rightarrow> bool" where
  "np_equal k1 x k2 y =
     (case (values_dtype k1, values_dtype k2) of
        (Some d1, Some d2) \<Rightarrow> if d1 = d2 then x = y else to_float64 x = to_float64 y
      | (t1, t2) \<Rightarrow> k1 = k2 \<and> x = y)"

definition np_greater_equal :: "index_kind \<Rightarrow> int \<Rightarrow> index_kind \<Rightarrow> int \<Rightarrow> bool" where
  "np_greater_equal k1 x k2 y =
     (case (values_dtype k1, values_dtype k2) of
        (Some d1, Some d2) \<Rightarrow> if d1 = d2 then x \<ge> y else to_float64 x \<ge> to_float64 y
      | (t1, t2) \<Rightarrow> k1 = k2 \<and> x \<ge> y)"

text \<open>
  \<^verbatim>\<open>np.array_equal\<close> on two indices: the same shape and equal elements. \<^verbatim>\<open>a.equals(b)\<close>
  on two indices comes down to it.
\<close>

definition np_array_equal :: "pd_index \<Rightarrow> pd_index \<Rightarrow> bool" where
  "np_array_equal a b =
     (length (labels a) = length (labels b)
      \<and> list_all (\<lambda>(x, y). np_equal (kind a) x (kind b) y) (zip (labels a) (labels b)))"





subsection \<open>Time index\<close>

text \<open>
  \<^verbatim>\<open>pd.Index(a)\<close> on a numeric array: the class follows the element type. A 1-D array
  gives the index of its elements. A 0-d array is wrapped as well, into an index of that
  class over 0-d data, which has no labels to go through. An array of more dimensions is
  refused.
\<close>

datatype time_index = Proper pd_index | ZeroDim index_kind

fun index_kind_of :: "dtype \<Rightarrow> index_kind" where
  "index_kind_of Int_dtype = Int64Index"
| "index_kind_of UInt_dtype = UInt64Index"
| "index_kind_of Float_dtype = Float64Index"

definition pd_Index :: "ndarray \<Rightarrow> error + time_index" where
  "pd_Index a =
     (case shape a of
        [] \<Rightarrow> Inr (ZeroDim (index_kind_of (dtype a)))
      | [n] \<Rightarrow> Inr (Proper \<lparr>kind = index_kind_of (dtype a), labels = data a\<rparr>)
      | n # ns \<Rightarrow> Inl (ValueError ''Index data must be 1-dimensional''))"

fun kind_of :: "time_index \<Rightarrow> index_kind" where
  "kind_of (Proper i) = kind i"
| "kind_of (ZeroDim k) = k"

text \<open>
  \<^verbatim>\<open>Index.is_monotonic\<close>: every label is at most its successor. Over 0-d data it raises
  TypeError.
\<close>

fun monotonic_increasing :: "int list \<Rightarrow> bool" where
  "monotonic_increasing [] = True"
| "monotonic_increasing [x] = True"
| "monotonic_increasing (x # y # ys) = (x \<le> y \<and> monotonic_increasing (y # ys))"

fun is_monotonic :: "time_index \<Rightarrow> error + bool" where
  "is_monotonic (Proper i) = Inr (monotonic_increasing (labels i))"
| "is_monotonic (ZeroDim k) = Inl (TypeError ''is_monotonic: 0-d index data'')"

datatype time_index_arg = Index pd_index | Array ndarray

fun supported_index_types :: "index_kind \<Rightarrow> bool" where
  "supported_index_types RangeIndex = True"
| "supported_index_types Int64Index = True"
| "supported_index_types UInt64Index = True"
| "supported_index_types k = False"

text \<open>Lines 111 and 112: an array is wrapped into an index, an index is taken as it is.\<close>

fun wrap_index :: "time_index_arg \<Rightarrow> error + time_index" where
  "wrap_index (Array a) = pd_Index a"
| "wrap_index (Index i) = Inr (Proper i)"

definition check_time_index :: "time_index_arg \<Rightarrow> error + time_index" where
  "check_time_index arg =
     (case wrap_index arg of
        Inl e \<Rightarrow> Inl e
      | Inr time_index \<Rightarrow>
          if \<not> supported_index_types (kind_of time_index)
          then Inl (NotImplementedError ''index type is not supported'')
          else (case is_monotonic time_index of
                  Inl e \<Rightarrow> Inl e
                | Inr increasing \<Rightarrow>
                    if \<not> increasing
                    then Inl (ValueError ''Time index must be sorted (monotonically increasing)'')
                    else Inr time_index))"

subsection \<open>Series\<close>

text \<open>
  A series pairs an index with its observations; \<open>vals\<close> is the attribute
  \<^verbatim>\<open>Series.values\<close>, and \<^verbatim>\<open>len(y)\<close> is its length.
\<close>

record series =
  index :: pd_index
  vals :: "pyfloat list"

datatype y_arg = Series series | NotSeries pyval

text \<open>\<^verbatim>\<open>y.iloc[0]\<close>: the first value; on an empty series pandas raises IndexError.\<close>

definition iloc0 :: "series \<Rightarrow> error + pyfloat" where
  "iloc0 y = (case vals y of
                [] \<Rightarrow> Inl (IndexError ''single positional indexer is out-of-bounds'')
              | v # vs \<Rightarrow> Inr v)"

text \<open>The block \<^verbatim>\<open>if not allow_constant: if np.all(y == y.iloc[0]): raise ...\<close>.\<close>

definition check_constant :: "series \<Rightarrow> error + unit" where
  "check_constant y =
     (case iloc0 y of
        Inl e \<Rightarrow> Inl e
      | Inr v0 \<Rightarrow>
          if list_all (\<lambda>v. float_eq v v0) (vals y)
          then Inl (ValueError ''All values of y are the same'')
          else Inr ())"

fun check_y :: "y_arg \<Rightarrow> bool \<Rightarrow> bool \<Rightarrow> error + series" where
  "check_y (NotSeries v) allow_empty allow_constant =
     Inl (TypeError ''y must be a pandas Series'')"
| "check_y (Series y) allow_empty allow_constant =
     (if \<not> allow_empty \<and> length (vals y) < 1
      then Inl (ValueError ''y must contain at least some observations, but found empty series'')
      else (case (if \<not> allow_constant then check_constant y else Inr ()) of
              Inl e \<Rightarrow> Inl e
            | Inr u \<Rightarrow>
                (case check_time_index (Index (index y)) of
                   Inl e \<Rightarrow> Inl e
                 | Inr i \<Rightarrow> Inr y)))"

subsection \<open>Nested tables\<close>

text \<open>
  A cell of a nested table is a series or a raw array. A table has its column names and
  its rows, each row with one cell per column.
\<close>

datatype cell = SeriesCell series | ArrayCell ndarray

record dataframe =
  columns :: "string list"
  rows :: "cell list list"

datatype X_arg = DataFrame dataframe | NotDataFrame pyval

text \<open>\<^verbatim>\<open>X.iloc[r, c]\<close>: IndexError outside the table.\<close>

definition iloc :: "dataframe \<Rightarrow> nat \<Rightarrow> nat \<Rightarrow> error + cell" where
  "iloc X r c =
     (if r < length (rows X) \<and> c < length (columns X) \<and> c < length (rows X ! r)
      then Inr (rows X ! r ! c)
      else Inl (IndexError ''single positional indexer is out-of-bounds''))"

text \<open>\<^verbatim>\<open>cell.shape[0]\<close>: the length of a series; the first axis of an array, if it has one.\<close>

fun shape0 :: "cell \<Rightarrow> error + nat" where
  "shape0 (SeriesCell s) = Inr (length (vals s))"
| "shape0 (ArrayCell a) =
     (case shape a of
        [] \<Rightarrow> Inl (IndexError ''tuple index out of range'')
      | n # ns \<Rightarrow> Inr n)"

text \<open>
  The expression of lines 151 and 160,
  \<^verbatim>\<open>X.iloc[0, c].index if hasattr(X.iloc[0, c], 'index') else pd.RangeIndex(X.iloc[0, 0].shape[0])\<close>:
  the range of a raw cell is sized by the cell of column 0, in line 160 as in line 151.
\<close>

definition column_index :: "dataframe \<Rightarrow> nat \<Rightarrow> error + pd_index" where
  "column_index X c =
     (case iloc X 0 c of
        Inl e \<Rightarrow> Inl e
      | Inr (SeriesCell s) \<Rightarrow> Inr (index s)
      | Inr (ArrayCell a) \<Rightarrow>
          (case iloc X 0 0 of
             Inl e \<Rightarrow> Inl e
           | Inr c0 \<Rightarrow> (case shape0 c0 of Inl e \<Rightarrow> Inl e | Inr n \<Rightarrow> Inr (pd_RangeIndex n))))"

text \<open>The loop \<^verbatim>\<open>for c, col in enumerate(X.columns)\<close>.\<close>

fun check_X_columns :: "dataframe \<Rightarrow> pd_index \<Rightarrow> (nat \<times> string) list \<Rightarrow> error + unit" where
  "check_X_columns X first_index [] = Inr ()"
| "check_X_columns X first_index ((c, col) # rest) =
     (case column_index X c of
        Inl e \<Rightarrow> Inl e
      | Inr idx \<Rightarrow>
          if \<not> np_array_equal first_index idx
          then Inl (ValueError (''Found time series with unequal index in column '' @ col))
          else check_X_columns X first_index rest)"

fun check_X :: "X_arg \<Rightarrow> error + dataframe" where
  "check_X (NotDataFrame v) = Inl (ValueError ''X must a pandas DataFrame'')"
| "check_X (DataFrame X) =
     (if length (rows X) > 1 then Inl (ValueError ''X must consist of a single row'')
      else (case column_index X 0 of
              Inl e \<Rightarrow> Inl e
            | Inr first_index \<Rightarrow>
                if length (labels first_index) < 1
                then Inl (ValueError ''Time series must contain now least 2 observations'')
                else (case check_X_columns X first_index (enumerate 0 (columns X)) of
                        Inl e \<Rightarrow> Inl e
                      | Inr u \<Rightarrow> Inr X)))"

text \<open>
  The rule of the spec (4.3), to compare with: the effective index of a cell is its own
  index if it has one, otherwise a dense range sized to that cell's element count.
\<close>

fun effective_index :: "cell \<Rightarrow> error + pd_index" where
  "effective_index (SeriesCell s) = Inr (index s)"
| "effective_index (ArrayCell a) =
     (case shape0 (ArrayCell a) of Inl e \<Rightarrow> Inl e | Inr n \<Rightarrow> Inr (pd_RangeIndex n))"

subsection \<open>Consistent time indices\<close>



section \<open>Properties\<close>

subsection \<open>Confidence levels\<close>

lemma in_open_interval_float:
  "in_open_interval (PyFloat f) = Inr (strictly_between_0_1 f)"
  by (cases f) simp_all

lemma check_range_floats:
  "check_range (map PyFloat fs) =
     (if list_all strictly_between_0_1 fs then Inr ()
      else Inl (ValueError ''alpha must lie in the open interval (0, 1)''))"
  by (induction fs) (simp_all del: in_open_interval.simps add: in_open_interval_float)

lemma list_all_is_float_map: "list_all is_float (map PyFloat fs)"
  by (induction fs) simp_all

text \<open>
  C9. \<^verbatim>\<open>check_alpha\<close> turns a float into a one-element list and keeps a list of floats as
  it is, and it raises the out-of-range error exactly when some value does not lie
  strictly between 0 and 1 (NaN and the infinities do not). \<^verbatim>\<open>0.05\<close> gives \<^verbatim>\<open>[0.05]\<close>;
  the floats \<^verbatim>\<open>0.0\<close> and \<^verbatim>\<open>1.0\<close> and the ints \<^verbatim>\<open>0\<close> and \<^verbatim>\<open>1\<close> are all rejected.
\<close>

theorem check_alpha_spec:
  "check_alpha (PyFloat a) =
     (if strictly_between_0_1 a then Inr (PyList [PyFloat a])
      else Inl (ValueError ''alpha must lie in the open interval (0, 1)''))
   \<and> check_alpha (PyList (map PyFloat fs)) =
     (if list_ex (\<lambda>f. \<not> strictly_between_0_1 f) fs
      then Inl (ValueError ''alpha must lie in the open interval (0, 1)'')
      else Inr (PyList (map PyFloat fs)))
   \<and> check_alpha (PyFloat (Finite (5 / 100))) = Inr (PyList [PyFloat (Finite (5 / 100))])
   \<and> isl (check_alpha (PyFloat (Finite 0))) \<and> isl (check_alpha (PyFloat (Finite 1)))
   \<and> isl (check_alpha (PyInt 0)) \<and> isl (check_alpha (PyInt 1))"
proof -
  have one: "check_range [PyFloat a] =
      (if strictly_between_0_1 a then Inr ()
       else Inl (ValueError ''alpha must lie in the open interval (0, 1)''))" for a
    using check_range_floats [of "[a]"] by simp
  have ex: "list_ex (\<lambda>f. \<not> strictly_between_0_1 f) fs = (\<not> list_all strictly_between_0_1 fs)"
    by (simp add: list_ex_iff list_all_iff)
  show ?thesis
    by (simp add: one ex check_range_floats list_all_is_float_map
        del: check_range.simps)
qed

theorem check_alpha_spec_witness:
  "check_alpha (PyFloat (Finite (1 / 2))) = Inr (PyList [PyFloat (Finite (1 / 2))])
   \<and> check_alpha (PyList [PyFloat (Finite (1 / 2)), PyFloat (Finite (3 / 2))]) =
       Inl (ValueError ''alpha must lie in the open interval (0, 1)'')"
  using check_alpha_spec [of "Finite (1 / 2)" "[Finite (1 / 2), Finite (3 / 2)]"]
  by simp

subsection \<open>None as an argument of the scalar validators\<close>

text \<open>
  C2, as stated, fails: \<^verbatim>\<open>check_alpha(None)\<close> does not return \<^verbatim>\<open>None\<close>, and
  \<^verbatim>\<open>check_cutoffs(None)\<close> raises.
\<close>

theorem none_not_passed_through_counterexample:
  "check_alpha PyNone \<noteq> Inr PyNone \<and> isl (check_cutoffs (Val PyNone) [])"
  by simp

text \<open>
  C2, amended. \<^verbatim>\<open>check_window_length\<close>, \<^verbatim>\<open>check_step_length\<close> and \<^verbatim>\<open>check_sp\<close> return
  \<^verbatim>\<open>None\<close> unchanged. \<^verbatim>\<open>check_cutoffs\<close> accepts arrays only and rejects \<^verbatim>\<open>None\<close> with its
  ValueError; \<^verbatim>\<open>check_alpha\<close> has no branch for \<^verbatim>\<open>None\<close> and raises as well.
\<close>

theorem scalar_validators_none:
  "check_window_length PyNone = Inr PyNone
   \<and> check_step_length PyNone = Inr PyNone
   \<and> check_sp PyNone = Inr PyNone
   \<and> isl (check_alpha PyNone)
   \<and> check_cutoffs (Val PyNone) h = Inl (ValueError ''cutoffs must be a np.array'')"
  by (simp add: check_window_length_def check_step_length_def check_sp_def)

theorem scalar_validators_none_witness:
  "check_window_length PyNone = Inr PyNone
   \<and> isl (check_alpha PyNone)
   \<and> check_cutoffs (Val PyNone) [] = Inl (ValueError ''cutoffs must be a np.array'')"
  using scalar_validators_none [of "[]"] by simp


subsection \<open>Rounding to double\<close>




subsection \<open>Time index\<close>



text \<open>
  Every index, every 1-D array and every 0-d array is wrapped; only an array of more
  dimensions is refused by \<^verbatim>\<open>pd.Index\<close>.
\<close>

lemma wrap_index_cases:
  "wrap_index (Index i) = Inr (Proper i)"
  "shape a = [n] \<Longrightarrow>
     wrap_index (Array a) = Inr (Proper \<lparr>kind = index_kind_of (dtype a), labels = data a\<rparr>)"
  "shape a = [] \<Longrightarrow> wrap_index (Array a) = Inr (ZeroDim (index_kind_of (dtype a)))"
  "1 < ndim a \<Longrightarrow> wrap_index (Array a) = Inl (ValueError ''Index data must be 1-dimensional'')"
  by (auto simp: pd_Index_def ndim_def split: list.splits)



text \<open>The dense range of length 4 passes like the explicit labels 0, 1, 2, 3.\<close>

lemma check_time_index_range_4:
  "check_time_index (Index (pd_RangeIndex 4)) = Inr (Proper (pd_RangeIndex 4))"
  by (simp add: check_time_index_def pd_RangeIndex_def upt_rec)


subsection \<open>Series\<close>

text \<open>
  C10. With \<^verbatim>\<open>allow_empty=True\<close> and \<^verbatim>\<open>allow_constant=False\<close>, \<^verbatim>\<open>check_y\<close> on an empty
  series does not return the series: the constant check reads \<^verbatim>\<open>y.iloc[0]\<close>, which
  raises IndexError.
\<close>

theorem check_y_empty_allowed_raises:
  assumes "vals y = []"
  shows "check_y (Series y) True False
           = Inl (IndexError ''single positional indexer is out-of-bounds'')"
  using assms by (simp add: check_constant_def iloc0_def)

theorem check_y_empty_allowed_raises_witness:
  "check_y (Series \<lparr>index = pd_RangeIndex 0, vals = []\<rparr>) True False
     = Inl (IndexError ''single positional indexer is out-of-bounds'')"
  using check_y_empty_allowed_raises [of "\<lparr>index = pd_RangeIndex 0, vals = []\<rparr>"] by simp

text \<open>The same series is returned when the constant check is off.\<close>

lemma check_y_empty_allowed_constant_allowed:
  "check_y (Series \<lparr>index = pd_RangeIndex 0, vals = []\<rparr>) True True
     = Inr \<lparr>index = pd_RangeIndex 0, vals = []\<rparr>"
  by (simp add: check_time_index_def pd_RangeIndex_def)


subsection \<open>Consistent time indices\<close>




text \<open>
  The comparison of line 320, by the numeric types of the two indices: exact for the same
  type, after rounding to double for a signed against an unsigned one.
\<close>

lemma np_greater_equal_same:
  "values_dtype k1 = Some d \<Longrightarrow> values_dtype k2 = Some d \<Longrightarrow>
     np_greater_equal k1 x k2 y = (x \<ge> y)"
  by (simp add: np_greater_equal_def)

lemma np_greater_equal_mixed:
  "values_dtype k1 = Some d1 \<Longrightarrow> values_dtype k2 = Some d2 \<Longrightarrow> d1 \<noteq> d2 \<Longrightarrow>
     np_greater_equal k1 x k2 y = (to_float64 x \<ge> to_float64 y)"
  by (simp add: np_greater_equal_def)
















subsection \<open>Forecasting horizon\<close>

text \<open>The duplicate check compares lengths; it fails exactly on a list with a repeated value.\<close>

lemma length_np_unique: "(length xs \<noteq> length (np_unique xs)) = (\<not> distinct xs)"
proof -
  have "(length (remdups xs) = length xs) = distinct xs"
    by (simp add: remdups_id_iff_distinct)
  moreover have "length (np_unique xs) = length (remdups xs)"
    by (simp add: np_unique_def)
  ultimately show ?thesis by metis
qed

text \<open>The common tail of \<^verbatim>\<open>check_fh\<close> on a 1-D array and on a 0-d array.\<close>

lemma check_fh_tail_1d:
  assumes "p < length h" and "shape (h ! p) = [length (data (h ! p))]"
  shows "check_fh_tail p h =
     (if data (h ! p) = [] then (Inl (ValueError ''fh cannot be empty''), h)
      else if \<not> distinct (data (h ! p))
      then (Inl (ValueError ''fh should not contain duplicates''), h)
      else (Inr p, h[p := (h ! p)\<lparr>data := sort (data (h ! p))\<rparr>]))"
  using assms by (simp add: check_fh_tail_def np_len_def length_np_unique Let_def)

lemma check_fh_tail_0d:
  assumes "shape (h ! p) = []"
  shows "check_fh_tail p h = (Inl (TypeError ''len() of unsized object''), h)"
  using assms by (simp add: check_fh_tail_def np_len_def)

text \<open>A fresh array built from Python ints, then checked.\<close>

lemma check_fh_fresh:
  assumes "np_array_int xs = Inr a"
  shows "check_fh_tail (length h) (h @ [a]) =
     (if xs = [] then (Inl (ValueError ''fh cannot be empty''), h @ [a])
      else if \<not> distinct xs
      then (Inl (ValueError ''fh should not contain duplicates''), h @ [a])
      else (Inr (length h), h @ [a\<lparr>data := sort xs\<rparr>]))"
proof -
  from assms have a: "a = \<lparr>dtype = Int_dtype, shape = [length xs], data = xs\<rparr>"
    by (simp add: np_array_int_def split: if_splits)
  have "check_fh_tail (length h) (h @ [a]) =
     (if data ((h @ [a]) ! length h) = [] then (Inl (ValueError ''fh cannot be empty''), h @ [a])
      else if \<not> distinct (data ((h @ [a]) ! length h))
      then (Inl (ValueError ''fh should not contain duplicates''), h @ [a])
      else (Inr (length h), (h @ [a])[length h := ((h @ [a]) ! length h)\<lparr>data := sort (data ((h @ [a]) ! length h))\<rparr>]))"
    by (rule check_fh_tail_1d) (simp_all add: a)
  then show ?thesis by (simp add: a)
qed

text \<open>\<^verbatim>\<open>check_fh\<close> on each kind of argument it accepts.\<close>

lemma check_fh_int:
  "check_fh (Val (PyInt n)) h =
     (if fits_int64 n
      then (Inr (length h), h @ [\<lparr>dtype = Int_dtype, shape = [1], data = [n]\<rparr>])
      else (Inl (OverflowError ''Python int too large to convert to C long''), h))"
proof (cases "fits_int64 n")
  case True
  then have "np_array_int [n] = Inr \<lparr>dtype = Int_dtype, shape = [1], data = [n]\<rparr>"
    by (simp add: np_array_int_def)
  from check_fh_fresh [OF this, of h] this True show ?thesis
    by (simp add: alloc_def)
next
  case False
  then show ?thesis by (simp add: np_array_int_def)
qed

lemma check_fh_list:
  assumes "list_all is_int xs"
  shows "check_fh (Val (PyList xs)) h =
     (let ns = map int_of xs; a = \<lparr>dtype = Int_dtype, shape = [length ns], data = ns\<rparr> in
      if \<not> list_all fits_int64 ns
      then (Inl (OverflowError ''Python int too large to convert to C long''), h)
      else if ns = [] then (Inl (ValueError ''fh cannot be empty''), h @ [a])
      else if \<not> distinct ns
      then (Inl (ValueError ''fh should not contain duplicates''), h @ [a])
      else (Inr (length h), h @ [a\<lparr>data := sort ns\<rparr>]))"
proof (cases "list_all fits_int64 (map int_of xs)")
  case True
  then have "np_array_int (map int_of xs)
      = Inr \<lparr>dtype = Int_dtype, shape = [length (map int_of xs)], data = map int_of xs\<rparr>"
    by (simp add: np_array_int_def)
  from check_fh_fresh [OF this, of h] this True assms show ?thesis
    by (simp add: alloc_def Let_def)
next
  case False
  with assms show ?thesis by (simp add: np_array_int_def Let_def)
qed

lemma check_fh_array:
  assumes "p < length h" and "shape (h ! p) = [length (data (h ! p))]"
    and "issubdtype_integer (dtype (h ! p))"
  shows "check_fh (NDArray p) h =
     (if data (h ! p) = [] then (Inl (ValueError ''fh cannot be empty''), h)
      else if \<not> distinct (data (h ! p))
      then (Inl (ValueError ''fh should not contain duplicates''), h)
      else (Inr p, h[p := (h ! p)\<lparr>data := sort (data (h ! p))\<rparr>]))"
  using assms check_fh_tail_1d [OF assms(1,2)] by (simp add: ndim_def Let_def)

lemma sort_eq_Nil: "(sort (xs::int list) = []) = (xs = [])"
  by (metis length_sort length_0_conv)


text \<open>Whatever \<^verbatim>\<open>check_fh\<close> returns is canonical and is the sorted input of an accepted kind.\<close>

lemma check_fh_success:
  assumes "wf_arg fh h" and "check_fh fh h = (Inr p, h')"
  shows "p < length h' \<and> canonical_fh (h' ! p) \<and> data (h' ! p) = sort (fh_input fh h)
         \<and> accepted_fh fh h \<and> distinct (fh_input fh h) \<and> fh_input fh h \<noteq> []"
proof (cases fh)
  case (NDArray q)
  with assms have q: "q < length h" by simp
  from assms(2) NDArray have nd: "\<not> ndim (h ! q) > 1" and dt: "issubdtype_integer (dtype (h ! q))"
    by (auto simp: Let_def split: if_splits)
  have "shape (h ! q) \<noteq> []"
  proof
    assume "shape (h ! q) = []"
    with assms(2) NDArray nd dt show False by (simp add: check_fh_tail_0d)
  qed
  with nd have n1: "ndim (h ! q) = 1" by (cases "shape (h ! q)") (auto simp: ndim_def)
  with assms(1) NDArray have sh: "shape (h ! q) = [length (data (h ! q))]" by simp
  from assms(2) show ?thesis
    unfolding NDArray check_fh_array [OF q sh dt]
    using q sh dt n1 by (auto simp: canonical_fh_def sort_eq_Nil split: if_splits)
next
  case (Val v)
  show ?thesis
  proof (cases v)
    case (PyInt n)
    from assms(2) show ?thesis unfolding Val PyInt check_fh_int
      by (auto simp: canonical_fh_def sort_eq_Nil split: if_splits)
  next
    case (PyList xs)
    show ?thesis
    proof (cases "list_all is_int xs")
      case True
      from assms(2) True show ?thesis unfolding Val PyList check_fh_list [OF True]
        by (auto simp: canonical_fh_def sort_eq_Nil Let_def split: if_splits)
    next
      case False
      with assms(2) show ?thesis unfolding Val PyList by auto
    qed
  qed (use assms(2) Val in simp_all)
qed

text \<open>An input of an accepted kind with at least one value and no repeated value is accepted.\<close>

lemma check_fh_accepts:
  assumes "wf_arg fh h" and "accepted_fh fh h"
    and "fh_input fh h \<noteq> []" and "distinct (fh_input fh h)"
  shows "\<exists>p h'. check_fh fh h = (Inr p, h')"
proof (cases fh)
  case (NDArray q)
  with assms(1,2) have q: "q < length h" and sh: "shape (h ! q) = [length (data (h ! q))]"
    and dt: "issubdtype_integer (dtype (h ! q))"
    by simp_all
  from assms(3,4) show ?thesis
    unfolding NDArray check_fh_array [OF q sh dt] by simp
next
  case (Val v)
  show ?thesis
  proof (cases v)
    case (PyInt n)
    with assms(2) Val have "fits_int64 n" by simp
    then show ?thesis unfolding Val PyInt check_fh_int by simp
  next
    case (PyList xs)
    with assms(2) Val have i: "list_all is_int xs" and f: "list_all fits_int64 (map int_of xs)"
      by simp_all
    from assms(3,4) f show ?thesis
      unfolding Val PyList check_fh_list [OF i] by (simp add: Let_def)
  qed (use assms(2) Val in simp_all)
qed

text \<open>
  C1. \<^verbatim>\<open>check_fh\<close> returns exactly on the inputs of an accepted kind (a single integer, a
  1-D integer array, a list of integers; Python ints within 64 bits) that have at least
  one value and no repeated value. What it returns is a 1-D integer array, sorted
  ascending, without duplicates, holding exactly the values passed in. An input with a
  repeated value is rejected with an error, and so is an input with no values.
\<close>

theorem check_fh_spec:
  assumes "wf_arg fh h"
  shows "((\<exists>p h'. check_fh fh h = (Inr p, h'))
            = (accepted_fh fh h \<and> fh_input fh h \<noteq> [] \<and> distinct (fh_input fh h)))
       \<and> (\<forall>p h'. check_fh fh h = (Inr p, h') \<longrightarrow>
            canonical_fh (h' ! p) \<and> data (h' ! p) = sort (fh_input fh h)
            \<and> sorted (data (h' ! p)) \<and> distinct (data (h' ! p))
            \<and> set (data (h' ! p)) = set (fh_input fh h))
       \<and> (\<not> distinct (fh_input fh h) \<longrightarrow> (\<exists>e. fst (check_fh fh h) = Inl e))
       \<and> (fh_input fh h = [] \<longrightarrow> (\<exists>e. fst (check_fh fh h) = Inl e))"
proof -
  have success: "canonical_fh (h' ! p) \<and> data (h' ! p) = sort (fh_input fh h)
      \<and> sorted (data (h' ! p)) \<and> distinct (data (h' ! p))
      \<and> set (data (h' ! p)) = set (fh_input fh h)
      \<and> accepted_fh fh h \<and> fh_input fh h \<noteq> [] \<and> distinct (fh_input fh h)"
    if "check_fh fh h = (Inr p, h')" for p h'
    using check_fh_success [OF assms that] by simp
  have iff: "(\<exists>p h'. check_fh fh h = (Inr p, h'))
      = (accepted_fh fh h \<and> fh_input fh h \<noteq> [] \<and> distinct (fh_input fh h))"
    using success check_fh_accepts [OF assms] by blast
  have rejected: "\<exists>e. fst (check_fh fh h) = Inl e"
    if "\<not> distinct (fh_input fh h) \<or> fh_input fh h = []"
  proof (cases "fst (check_fh fh h)")
    case (Inl e)
    then show ?thesis by blast
  next
    case (Inr p)
    then have "check_fh fh h = (Inr p, snd (check_fh fh h))" by (metis prod.collapse)
    from success [OF this] that show ?thesis by simp
  qed
  from iff success rejected show ?thesis by blast
qed

theorem check_fh_spec_witness:
  "check_fh (Val (PyList [PyInt 3, PyInt 1, PyInt 2])) []
     = (Inr 0, [\<lparr>dtype = Int_dtype, shape = [3], data = [1, 2, 3]\<rparr>])
   \<and> (\<exists>p h'. check_fh (Val (PyInt 5)) [] = (Inr p, h'))
   \<and> (\<exists>p h'. check_fh (NDArray 0) [\<lparr>dtype = Int_dtype, shape = [2], data = [7, 4]\<rparr>]
               = (Inr p, h'))
   \<and> (\<exists>e. fst (check_fh (Val (PyList [PyInt 1, PyInt 1])) []) = Inl e)
   \<and> (\<exists>e. fst (check_fh (Val (PyList [])) []) = Inl e)"
proof -
  have w: "wf_arg (Val v) []" for v by simp
  have wa: "wf_arg (NDArray 0) [\<lparr>dtype = Int_dtype, shape = [2], data = [7, 4]\<rparr>]"
    by (simp add: ndim_def)
  have e: "check_fh (Val (PyList [PyInt 3, PyInt 1, PyInt 2])) []
     = (Inr 0, [\<lparr>dtype = Int_dtype, shape = [3], data = [1, 2, 3]\<rparr>])"
    by (simp add: np_array_int_def fits_int64_def alloc_def check_fh_tail_def np_len_def
        np_unique_def)
  from check_fh_spec [OF w, of "PyList [PyInt 1, PyInt 1]"]
    check_fh_spec [OF w, of "PyList []"]
    check_fh_spec [OF w, of "PyInt 5"]
    check_fh_spec [OF wa] e
  show ?thesis by (simp add: fits_int64_def ndim_def)
qed

text \<open>
  C7. \<^verbatim>\<open>check_fh\<close> on a canonical horizon (a nonempty 1-D integer array, sorted, without
  duplicates) returns that array, with the same elements.
\<close>

theorem check_fh_idempotent:
  assumes "p < length h" and "canonical_fh (h ! p)"
  shows "check_fh (NDArray p) h = (Inr p, h)"
proof -
  from assms(2) have sh: "shape (h ! p) = [length (data (h ! p))]"
    and dt: "issubdtype_integer (dtype (h ! p))"
    and d: "data (h ! p) \<noteq> []" "sorted (data (h ! p))" "distinct (data (h ! p))"
    by (simp_all add: canonical_fh_def)
  have "(h ! p)\<lparr>data := sort (data (h ! p))\<rparr> = h ! p"
    using d(2) by (simp add: sorted_sort_id)
  then show ?thesis
    using check_fh_array [OF assms(1) sh dt] d by simp
qed

theorem check_fh_idempotent_witness:
  "check_fh (NDArray 0) [\<lparr>dtype = Int_dtype, shape = [3], data = [1, 2, 3]\<rparr>]
     = (Inr 0, [\<lparr>dtype = Int_dtype, shape = [3], data = [1, 2, 3]\<rparr>])"
  using check_fh_idempotent [of 0 "[\<lparr>dtype = Int_dtype, shape = [3], data = [1, 2, 3]\<rparr>]"]
  by (simp add: canonical_fh_def)

text \<open>Running the check on its own result changes nothing.\<close>

lemma check_fh_twice:
  assumes "wf_arg fh h" and "check_fh fh h = (Inr p, h')"
  shows "check_fh (NDArray p) h' = (Inr p, h')"
proof -
  from check_fh_success [OF assms] have p: "p < length h'" and c: "canonical_fh (h' ! p)"
    by simp_all
  from c have "(h' ! p)\<lparr>data := sort (data (h' ! p))\<rparr> = h' ! p"
    by (simp add: canonical_fh_def sorted_sort_id)
  with c check_fh_array [OF p, of] show ?thesis
    by (simp add: canonical_fh_def)
qed

text \<open>
  C8. \<^verbatim>\<open>fh.sort()\<close> sorts in place, and on the array branch \<^verbatim>\<open>fh\<close> is still the caller's
  array: after \<^verbatim>\<open>check_fh(a)\<close> with \<^verbatim>\<open>a = np.array([3, 1, 2])\<close> the caller's \<^verbatim>\<open>a\<close> holds
  1, 2, 3. (\<^verbatim>\<open>check_cutoffs\<close> uses \<^verbatim>\<open>np.sort\<close>, which copies.)
\<close>

theorem check_fh_sorts_argument_in_place:
  "check_fh (NDArray 0) [\<lparr>dtype = Int_dtype, shape = [3], data = [3, 1, 2]\<rparr>]
     = (Inr 0, [\<lparr>dtype = Int_dtype, shape = [3], data = [1, 2, 3]\<rparr>])"
  by (simp add: ndim_def check_fh_tail_def np_len_def np_unique_def)


theorem check_fh_sorts_argument_in_place_witness:
  "data (snd (check_fh (NDArray 0) [\<lparr>dtype = Int_dtype, shape = [3], data = [3, 1, 2]\<rparr>]) ! 0)
     \<noteq> [3, 1, 2]"
  using check_fh_sorts_argument_in_place by simp

text \<open>Nothing else in the store is touched: only the array passed as argument can change.\<close>

lemma check_fh_tail_frame:
  assumes "check_fh_tail p h = (r, h')" and "q \<noteq> p"
  shows "length h' = length h \<and> h' ! q = h ! q"
  using assms
  by (auto simp: check_fh_tail_def Let_def split: sum.splits if_splits)

lemma check_fh_frame:
  assumes "check_fh fh h = (r, h')" and "q < length h" and "fh \<noteq> NDArray q"
  shows "h' ! q = h ! q"
proof (cases fh)
  case (NDArray p)
  with assms(3) have "q \<noteq> p" by simp
  with assms(1) NDArray show ?thesis
    by (auto simp: Let_def split: if_splits dest: check_fh_tail_frame)
next
  case (Val v)
  have fresh: "check_fh_tail (length h) (h @ [a]) = (r, h') \<Longrightarrow> h' ! q = h ! q" for a
    using check_fh_tail_frame [of "length h" "h @ [a]" r h' q] assms(2)
    by (simp add: nth_append)
  from assms(1) show ?thesis unfolding Val
    by (cases v) (auto simp: alloc_def split: sum.splits if_splits dest: fresh)
qed

subsection \<open>Nested tables\<close>

text \<open>
  For a series cell the index used by \<^verbatim>\<open>check_X\<close> is the one of the spec's rule; for a raw
  cell it is a range sized by the cell of column 0, whatever the cell's own size.
\<close>

lemma column_index_series:
  "iloc X 0 c = Inr (SeriesCell s) \<Longrightarrow> column_index X c = effective_index (SeriesCell s)"
  by (simp add: column_index_def)

lemma column_index_raw:
  "iloc X 0 c = Inr (ArrayCell a) \<Longrightarrow> iloc X 0 0 = Inr c0 \<Longrightarrow> shape0 c0 = Inr n \<Longrightarrow>
     column_index X c = Inr (pd_RangeIndex n)"
  by (simp add: column_index_def)

text \<open>
  C3. A single-row table with two raw cells of 3 and of 2 elements is accepted by
  \<^verbatim>\<open>check_X\<close>, although by the spec's rule the effective indices are 0, 1, 2 and 0, 1.
\<close>

theorem check_X_raw_cells_sized_by_first_column:
  "check_X (DataFrame
      \<lparr>columns = [''a'', ''b''],
       rows = [[ArrayCell \<lparr>dtype = Int_dtype, shape = [3], data = [1, 2, 3]\<rparr>,
                ArrayCell \<lparr>dtype = Int_dtype, shape = [2], data = [4, 5]\<rparr>]]\<rparr>)
     = Inr \<lparr>columns = [''a'', ''b''],
            rows = [[ArrayCell \<lparr>dtype = Int_dtype, shape = [3], data = [1, 2, 3]\<rparr>,
                     ArrayCell \<lparr>dtype = Int_dtype, shape = [2], data = [4, 5]\<rparr>]]\<rparr>
   \<and> effective_index (ArrayCell \<lparr>dtype = Int_dtype, shape = [3], data = [1, 2, 3]\<rparr>)
     = Inr \<lparr>kind = RangeIndex, labels = [0, 1, 2]\<rparr>
   \<and> effective_index (ArrayCell \<lparr>dtype = Int_dtype, shape = [2], data = [4, 5]\<rparr>)
     = Inr \<lparr>kind = RangeIndex, labels = [0, 1]\<rparr>"
  by (simp add: column_index_def iloc_def pd_RangeIndex_def np_array_equal_def np_equal_def
      enumerate_eq_zip upt_rec)

theorem check_X_raw_cells_sized_by_first_column_witness:
  "isl (check_X (DataFrame
      \<lparr>columns = [''a'', ''b''],
       rows = [[ArrayCell \<lparr>dtype = Int_dtype, shape = [3], data = [1, 2, 3]\<rparr>,
                ArrayCell \<lparr>dtype = Int_dtype, shape = [2], data = [4, 5]\<rparr>]]\<rparr>)) = False"
  using check_X_raw_cells_sized_by_first_column by simp

text \<open>The spec's examples with series cells behave as the spec says.\<close>

lemma check_X_series_example:
  "check_X (DataFrame
      \<lparr>columns = [''a'', ''b''],
       rows = [[SeriesCell \<lparr>index = \<lparr>kind = Int64Index, labels = [0, 1, 2]\<rparr>,
                            vals = [Finite 1, Finite 2, Finite 3]\<rparr>,
                SeriesCell \<lparr>index = \<lparr>kind = Int64Index, labels = [0, 1, 2]\<rparr>,
                            vals = [Finite 4, Finite 5, Finite 6]\<rparr>]]\<rparr>)
     = Inr \<lparr>columns = [''a'', ''b''],
       rows = [[SeriesCell \<lparr>index = \<lparr>kind = Int64Index, labels = [0, 1, 2]\<rparr>,
                            vals = [Finite 1, Finite 2, Finite 3]\<rparr>,
                SeriesCell \<lparr>index = \<lparr>kind = Int64Index, labels = [0, 1, 2]\<rparr>,
                            vals = [Finite 4, Finite 5, Finite 6]\<rparr>]]\<rparr>"
  "check_X (DataFrame
      \<lparr>columns = [''a'', ''b''],
       rows = [[SeriesCell \<lparr>index = \<lparr>kind = Int64Index, labels = [0, 1, 2]\<rparr>,
                            vals = [Finite 1, Finite 2, Finite 3]\<rparr>,
                SeriesCell \<lparr>index = \<lparr>kind = Int64Index, labels = [0, 1]\<rparr>,
                            vals = [Finite 4, Finite 5]\<rparr>]]\<rparr>)
     = Inl (ValueError ''Found time series with unequal index in column b'')"
  by (simp_all add: column_index_def iloc_def np_array_equal_def np_equal_def enumerate_eq_zip
      upt_rec)

end
